theory Spec2Isabelle
  imports Complex_Main
begin

section \<open>Data model\<close>

text \<open>
  The sources: \<open>src/src/approval.ts\<close> and \<open>src/src/balances.ts\<close>; the
  market order (\<open>src/unnamed/part_001\<close>), the limit order and its cancellation
  (\<open>src/unnamed/part_004\<close>), and the client configuration with the realtime
  submission path (\<open>src/unnamed/part_003\<close>).

  The client is a TypeScript library over viem and the Mangrove SDK. Addresses are
  strings (viem's \<open>Address\<close>, compared as strings), token amounts, allowances and
  offer ids are JavaScript \<open>bigint\<close>s holding unsigned chain values (\<open>nat\<close>), ticks
  and the tick spacing are signed \<open>bigint\<close>s (\<open>int\<close>).
\<close>

type_synonym Address = string

datatype BS = buy | sell

record Token =
  address :: Address
  decimals :: nat

record MarketParams =
  base :: Token
  quote :: Token
  tickSpacing :: int

text \<open>
  A JavaScript \<open>number\<close> as far as the client looks at one: the client only tests a
  price for truthiness (\<open>!maxPrice\<close>) and hands it to the SDK. \<open>0\<close>, \<open>-0\<close> and
  \<open>NaN\<close> are falsy; \<open>Finite 0\<close> stands for both zeros.
\<close>

datatype number = Finite real | PosInfinity | NegInfinity | NaN

definition truthy :: "number \<Rightarrow> bool" where
  "truthy x = (x \<noteq> Finite 0 \<and> x \<noteq> NaN)"

text \<open>
  \<open>Error msg\<close> is \<open>throw new Error(msg)\<close> written in this repository; \<open>Thrown tag\<close>
  is an exception raised inside a collaborator (the SDK, the RPC transport) or by the
  runtime, which the client lets propagate.
\<close>

datatype error = Error string | Thrown string

text \<open>viem's receipt status, \<open>"success"\<close> or \<open>"reverted"\<close>.\<close>

datatype tx_status = succeeded | reverted

text \<open>
  Receipt logs are opaque to the client: it passes them to the SDK's decoders. The one
  event the model tells apart is the removal of a resting offer, which the cancellation
  decoder looks for.
\<close>

datatype log = OfferRemoved nat | OtherEvent string

record TransactionReceipt =
  status :: tx_status
  logs :: "log list"
  blockNumber :: nat
  transactionHash :: string

datatype OLKey = OLKey Address Address int

record SemibooksOLKeys =
  asksMarket :: OLKey
  bidsMarket :: OLKey

text \<open>Book configuration snapshots are opaque values handed on to the SDK's builder.\<close>

datatype LocalConfig = LocalConfig nat

datatype GlobalConfig = GlobalConfig nat

record Book =
  bidsConfig :: LocalConfig
  asksConfig :: LocalConfig
  marketConfig :: GlobalConfig

datatype Order = GTC | PO

record Params =
  mgv :: Address
  mgvOrder :: Address
  routerProxyFactory :: Address
  smartRouter :: Address
  mgvReader :: Address

definition params :: Params where
  "params = \<lparr> mgv = ''0x32360BB61fcb9cDCDD44eD44328b848061c0b9D7'',
              mgvOrder = ''0x981Bd234dA6778a6d0132364AfB30f517a9F5aa8'',
              routerProxyFactory = ''0x9DB89FB4B356D480139792Fa2146A408f8944E3a'',
              smartRouter = ''0x5edE1DD8029e59a0eF80CEB0474B3E8322490220'',
              mgvReader = ''0xB5C0a4249ee477860D47aD688386F2427F0F072a'' \<rparr>"

definition maxUint128 :: nat where
  "maxUint128 = 2 ^ 128 - 1"

definition maxUint256 :: nat where
  "maxUint256 = 2 ^ 256 - 1"

subsection \<open>Results\<close>

record ApprovalResult =
  token :: Address
  spender :: Address
  allowance :: nat

record MarketOrderResult =
  takerGot :: nat
  takerGave :: nat
  feePaid :: nat
  bounty :: nat

record RestingOffer =
  offer_id :: nat
  offer_tick :: int
  gives :: nat
  wants :: nat
  gasprice :: nat
  gasreq :: nat
  expiry :: "nat option"

record LimitOrderResult = MarketOrderResult +
  offer :: "RestingOffer option"

record RemoveOrderResult =
  success :: bool

subsection \<open>Call properties\<close>

text \<open>
  The three property objects share their leading fields, so they are one record
  extended three ways. An optional property (\<open>name?: type\<close>) is an \<open>option\<close>;
  its default is applied where the source destructures it.
\<close>

record OrderSide =
  market :: MarketParams
  bs :: BS

record TradeProps = OrderSide +
  fillVolume :: nat
  fillWants :: bool
  skipApprovalCheck :: "bool option"

record MarketOrderProps = TradeProps +
  maxPrice :: "number option"

record LimitOrderProps = TradeProps +
  price :: number
  orderType :: "Order option"
  baseTokenLogic :: "Address option"
  quoteTokenLogic :: "Address option"
  userRouter :: "Address option"
  book :: "Book option"
  restingOrderGasreq :: "nat option"
  expiryDate :: "nat option"
  msgValue :: "nat option"

record CancelLimitOrderProps = OrderSide +
  offerId :: nat
  deprovision :: "bool option"

subsection \<open>Transactions and the chain\<close>

text \<open>
  What the SDK's builders are given; the ABI encoding of the call is the SDK's.
\<close>

record RawLimitOrderParams =
  arg_olKey :: OLKey
  arg_tick :: int
  arg_restingOrderGasreq :: nat
  arg_localConfig :: LocalConfig
  arg_globalConfig :: GlobalConfig
  arg_fillVolume :: nat
  arg_fillWants :: bool
  arg_orderType :: Order
  arg_takerGivesLogic :: Address
  arg_takerWantsLogic :: Address
  arg_expiryDate :: "nat option"
  arg_value :: "nat option"

datatype call =
    Approve Address nat
  | MarketOrderByTick OLKey nat bool int
  | RawLimitOrder RawLimitOrderParams
  | RemoveOrder MarketParams BS nat bool

text \<open>
  Every exchange with the network is recorded in the order it happens.
  \<open>RealtimeSend to c\<close> is one run of \<open>realtimeWriteContract\<close> (prepare, sign,
  \<open>realtime_sendRawTransaction\<close>) for the call \<open>c\<close> on the contract \<open>to\<close>.
\<close>

datatype netcall =
    Multicall_allowance "(Address \<times> Address) list"
  | Multicall_balanceOf "Address list"
  | GetUserRouter Address
  | GetBook MarketParams
  | RealtimeSend Address call

text \<open>
  The part of the chain the client's behaviour depends on: the ERC-20 allowances the
  client's account has granted (token, then spender), and the record of network calls.
\<close>

record world =
  ledger :: "Address \<Rightarrow> Address \<Rightarrow> nat"
  trace :: "netcall list"

text \<open>
  The collaborators, which are not code of this repository: the SDK's pure functions
  (tick arithmetic on IEEE doubles, semibook keys, log decoders), and the node behind
  the RPC transport, which decides every receipt. They are parameters of the model.
  A successful ERC-20 \<open>approve\<close> sets the allowance; what any other transaction does to
  the allowances is the exchange's business (\<open>ledger_after\<close>).
\<close>

record env =
  account :: Address
  MAX_TICK :: int
  humanPriceToRawPrice :: "number \<Rightarrow> MarketParams \<Rightarrow> number"
  tickFromPrice :: "number \<Rightarrow> int \<Rightarrow> error + int"
  getSemibooksOLKeys :: "MarketParams \<Rightarrow> SemibooksOLKeys"
  marketOrderResultFromLogs ::
    "Params \<Rightarrow> MarketParams \<Rightarrow> log list \<Rightarrow> BS \<Rightarrow> Address \<Rightarrow> error + MarketOrderResult"
  limitOrderResultFromLogs ::
    "Params \<Rightarrow> MarketParams \<Rightarrow> log list \<Rightarrow> Address \<Rightarrow> BS \<Rightarrow> error + LimitOrderResult"
  removeOrderResultFromLogs ::
    "Params \<Rightarrow> MarketParams \<Rightarrow> log list \<Rightarrow> nat \<Rightarrow> BS \<Rightarrow> error + RemoveOrderResult"
  multicall_fault :: "netcall \<Rightarrow> world \<Rightarrow> error option"
  multicall_balanceOf :: "Address list \<Rightarrow> world \<Rightarrow> nat list"
  rpc_getUserRouter :: "Address \<Rightarrow> world \<Rightarrow> error + Address"
  rpc_getBook :: "MarketParams \<Rightarrow> world \<Rightarrow> error + Book"
  realtime_sendRawTransaction :: "Address \<Rightarrow> call \<Rightarrow> world \<Rightarrow> error + TransactionReceipt"
  ledger_after :: "Address \<Rightarrow> call \<Rightarrow> world \<Rightarrow> Address \<Rightarrow> Address \<Rightarrow> nat"

section \<open>config: the realtime submission path\<close>

text \<open>
  \<open>realtimeWriteContract\<close> (part_003, lines 72 to 142) encodes the call, prepares
  and signs the transaction and sends it with \<open>realtime_sendRawTransaction\<close>, which
  answers with the receipt. The model keeps one step of it: the call is recorded as
  sent, the node answers with a receipt or the path throws, and a receipt that is not
  reverted takes effect on the allowances (\<open>settle\<close>).
\<close>

fun settle ::
  "env \<Rightarrow> Address \<Rightarrow> call \<Rightarrow> TransactionReceipt \<Rightarrow> world \<Rightarrow> Address \<Rightarrow> Address \<Rightarrow> nat"
where
  "settle e tok (Approve spd amount) receipt w =
     (if status receipt = reverted then ledger w
      else (ledger w)(tok := (ledger w tok)(spd := amount)))"
| "settle e addr c receipt w =
     (if status receipt = reverted then ledger w else ledger_after e addr c w)"

definition realtimeWriteContract ::
  "env \<Rightarrow> Address \<Rightarrow> call \<Rightarrow> world \<Rightarrow> (error + TransactionReceipt) \<times> world"
where
  "realtimeWriteContract e addr c w =
     (let w' = w\<lparr>trace := trace w @ [RealtimeSend addr c]\<rparr> in
      case realtime_sendRawTransaction e addr c w of
        Inl err \<Rightarrow> (Inl err, w')
      | Inr receipt \<Rightarrow> (Inr receipt, w'\<lparr>ledger := settle e addr c receipt w\<rparr>))"

section \<open>approval\<close>

text \<open>
  \<open>getApprovals\<close> (approval.ts, lines 15 to 38) reads, in one multicall that allows
  no failure, the allowance the account has given each spender on each token, and pairs
  every answer with its request. \<open>giveApprovalTo\<close> (lines 40 to 55) sends
  \<open>approve(spender, amount)\<close> on the token, \<open>amount\<close> defaulting to
  \<open>maxUint256\<close>, and throws \<open>Approval failed\<close> on a reverted receipt.
\<close>

definition getApprovals ::
  "env \<Rightarrow> (Address \<times> Address) list \<Rightarrow> world \<Rightarrow> (error + ApprovalResult list) \<times> world"
where
  "getApprovals e props w =
     (let w' = w\<lparr>trace := trace w @ [Multicall_allowance props]\<rparr> in
      case multicall_fault e (Multicall_allowance props) w of
        Some err \<Rightarrow> (Inl err, w')
      | None \<Rightarrow>
          (Inr (map (\<lambda>(tok, spd). \<lparr>token = tok, spender = spd, allowance = ledger w tok spd\<rparr>)
                  props), w'))"

definition giveApprovalTo ::
  "env \<Rightarrow> Address \<Rightarrow> Address \<Rightarrow> nat option \<Rightarrow> world
     \<Rightarrow> (error + TransactionReceipt) \<times> world"
where
  "giveApprovalTo e tok spd amount w =
     (case realtimeWriteContract e tok
             (Approve spd (case amount of None \<Rightarrow> maxUint256 | Some a \<Rightarrow> a)) w of
        (Inl err, w') \<Rightarrow> (Inl err, w')
      | (Inr receipt, w') \<Rightarrow>
          if status receipt = reverted then (Inl (Error ''Approval failed''), w')
          else (Inr receipt, w'))"

section \<open>market-order\<close>

text \<open>
  \<open>marketOrder\<close> (part_001, lines 63 to 121) in the order of its statements: the
  tick of the price bound (\<open>marketOrder_maxTick\<close>, lines 72 to 80), the approval
  check (\<open>marketOrder_approval\<close>, lines 82 to 91), the order transaction
  (\<open>marketOrder_send\<close>, lines 93 to 104), then the test of the receipt and the
  decoding of its logs (lines 106 to 120). \<open>console.log\<close> is left out.
\<close>

definition marketOrder_maxTick :: "env \<Rightarrow> MarketOrderProps \<Rightarrow> error + int" where
  "marketOrder_maxTick e props =
     (case maxPrice props of
        None \<Rightarrow> Inr (MAX_TICK e)
      | Some mp \<Rightarrow>
          if \<not> truthy mp then Inr (MAX_TICK e)
          else
            (let rawPrice = humanPriceToRawPrice e mp (market props) in
             case tickFromPrice e rawPrice (tickSpacing (market props)) of
               Inl err \<Rightarrow> Inl err
             | Inr tick \<Rightarrow> Inr (if bs props = buy then - tick else tick)))"

definition marketOrder_approval ::
  "env \<Rightarrow> MarketOrderProps \<Rightarrow> world \<Rightarrow> (error + unit) \<times> world"
where
  "marketOrder_approval e props w =
     (if (case skipApprovalCheck props of None \<Rightarrow> False | Some b \<Rightarrow> b) then (Inr (), w)
      else
        (let tok = (if bs props = buy then address (quote (market props))
                    else address (base (market props))) in
         case getApprovals e [(tok, mgv params)] w of
           (Inl err, w1) \<Rightarrow> (Inl err, w1)
         | (Inr [], w1) \<Rightarrow> (Inl (Thrown ''TypeError''), w1)
         | (Inr (approval # _), w1) \<Rightarrow>
             if allowance approval < maxUint128 then
               (case giveApprovalTo e tok (mgv params) None w1 of
                  (Inl err, w2) \<Rightarrow> (Inl err, w2)
                | (Inr receipt, w2) \<Rightarrow> (Inr (), w2))
             else (Inr (), w1)))"

definition marketOrder_send ::
  "env \<Rightarrow> MarketOrderProps \<Rightarrow> world \<Rightarrow> (error + TransactionReceipt) \<times> world"
where
  "marketOrder_send e props w =
     (case marketOrder_maxTick e props of
        Inl err \<Rightarrow> (Inl err, w)
      | Inr maxTick \<Rightarrow>
          (case marketOrder_approval e props w of
             (Inl err, w1) \<Rightarrow> (Inl err, w1)
           | (Inr u, w1) \<Rightarrow>
               (let olKeys = getSemibooksOLKeys e (market props);
                    olKey = (if bs props = buy then asksMarket olKeys else bidsMarket olKeys)
                in realtimeWriteContract e (mgv params)
                     (MarketOrderByTick olKey (fillVolume props) (fillWants props) maxTick) w1)))"

definition marketOrder ::
  "env \<Rightarrow> MarketOrderProps \<Rightarrow> world
     \<Rightarrow> (error + TransactionReceipt \<times> MarketOrderResult) \<times> world"
where
  "marketOrder e props w =
     (case marketOrder_send e props w of
        (Inl err, w') \<Rightarrow> (Inl err, w')
      | (Inr receipt, w') \<Rightarrow>
          if status receipt = reverted then (Inl (Error ''Market order failed''), w')
          else
            (case marketOrderResultFromLogs e params (market props) (logs receipt) (bs props)
                    (account e) of
               Inl err \<Rightarrow> (Inl err, w')
             | Inr result \<Rightarrow> (Inr (receipt, result), w')))"

section \<open>limit-order\<close>

text \<open>
  \<open>limitOrder\<close> (part_004, lines 87 to 168): the defaults of its properties (lines
  88 to 105), the approval check (\<open>limitOrder_approval\<close>, lines 107 to 116), the
  tick (\<open>limitOrder_tick\<close>, lines 121 to 127), the builder's arguments
  (\<open>limitOrder_rawParams\<close>, lines 129 to 142), the order transaction (lines 144 to
  147), then the test of the receipt and the decoding (lines 149 to 167).
  \<open>cancelLimitOrder\<close> (lines 211 to 242) sends the removal and treats its receipt
  the same way.
\<close>

definition zeroAddress :: Address where
  "zeroAddress = ''0x0000000000000000000000000000000000000000''"

definition getUserRouter :: "env \<Rightarrow> Address \<Rightarrow> world \<Rightarrow> (error + Address) \<times> world" where
  "getUserRouter e user w =
     (rpc_getUserRouter e user w, w\<lparr>trace := trace w @ [GetUserRouter user]\<rparr>)"

definition getBook :: "env \<Rightarrow> MarketParams \<Rightarrow> world \<Rightarrow> (error + Book) \<times> world" where
  "getBook e m w = (rpc_getBook e m w, w\<lparr>trace := trace w @ [GetBook m]\<rparr>)"

text \<open>
  The defaults of the destructuring pattern that reach the network, in the order the
  pattern lists them: \<open>userRouter\<close>, then \<open>book\<close>, each fetched only when absent.
\<close>

definition limitOrder_defaults ::
  "env \<Rightarrow> LimitOrderProps \<Rightarrow> world \<Rightarrow> (error + Address \<times> Book) \<times> world"
where
  "limitOrder_defaults e props w =
     (case (case userRouter props of
              Some r \<Rightarrow> (Inr r, w)
            | None \<Rightarrow> getUserRouter e (account e) w) of
        (Inl err, w1) \<Rightarrow> (Inl err, w1)
      | (Inr router, w1) \<Rightarrow>
          (case (case book props of
                   Some b \<Rightarrow> (Inr b, w1)
                 | None \<Rightarrow> getBook e (market props) w1) of
             (Inl err, w2) \<Rightarrow> (Inl err, w2)
           | (Inr bk, w2) \<Rightarrow> (Inr (router, bk), w2)))"

definition limitOrder_approval ::
  "env \<Rightarrow> LimitOrderProps \<Rightarrow> Address \<Rightarrow> world \<Rightarrow> (error + unit) \<times> world"
where
  "limitOrder_approval e props router w =
     (if (case skipApprovalCheck props of None \<Rightarrow> False | Some b \<Rightarrow> b) then (Inr (), w)
      else
        (let tok = (if bs props = buy then address (quote (market props))
                    else address (base (market props))) in
         case getApprovals e [(tok, router)] w of
           (Inl err, w1) \<Rightarrow> (Inl err, w1)
         | (Inr [], w1) \<Rightarrow> (Inl (Thrown ''TypeError''), w1)
         | (Inr (approval # _), w1) \<Rightarrow>
             if allowance approval < maxUint128 then
               (case giveApprovalTo e tok (mgv params) None w1 of
                  (Inl err, w2) \<Rightarrow> (Inl err, w2)
                | (Inr receipt, w2) \<Rightarrow> (Inr (), w2))
             else (Inr (), w1)))"

definition limitOrder_tick :: "env \<Rightarrow> LimitOrderProps \<Rightarrow> error + int" where
  "limitOrder_tick e props =
     (let rawPrice = humanPriceToRawPrice e (price props) (market props) in
      case tickFromPrice e rawPrice (tickSpacing (market props)) of
        Inl err \<Rightarrow> Inl err
      | Inr tick \<Rightarrow> Inr (if bs props = buy then - tick else tick))"

definition limitOrder_rawParams ::
  "env \<Rightarrow> LimitOrderProps \<Rightarrow> Book \<Rightarrow> int \<Rightarrow> RawLimitOrderParams"
where
  "limitOrder_rawParams e props bk tick =
     (let olKeys = getSemibooksOLKeys e (market props);
          baseLogic = (case baseTokenLogic props of None \<Rightarrow> zeroAddress | Some a \<Rightarrow> a);
          quoteLogic = (case quoteTokenLogic props of None \<Rightarrow> zeroAddress | Some a \<Rightarrow> a)
      in \<lparr> arg_olKey = (if bs props = buy then asksMarket olKeys else bidsMarket olKeys),
           arg_tick = tick,
           arg_restingOrderGasreq =
             (case restingOrderGasreq props of None \<Rightarrow> 1000000 | Some g \<Rightarrow> g),
           arg_localConfig = (if bs props = buy then bidsConfig bk else asksConfig bk),
           arg_globalConfig = marketConfig bk,
           arg_fillVolume = fillVolume props,
           arg_fillWants = fillWants props,
           arg_orderType = (case orderType props of None \<Rightarrow> GTC | Some t \<Rightarrow> t),
           arg_takerGivesLogic = (if bs props = buy then quoteLogic else baseLogic),
           arg_takerWantsLogic = (if bs props = buy then baseLogic else quoteLogic),
           arg_expiryDate = expiryDate props,
           arg_value = msgValue props \<rparr>)"

definition limitOrder_send ::
  "env \<Rightarrow> LimitOrderProps \<Rightarrow> world \<Rightarrow> (error + TransactionReceipt) \<times> world"
where
  "limitOrder_send e props w =
     (case limitOrder_defaults e props w of
        (Inl err, w0) \<Rightarrow> (Inl err, w0)
      | (Inr (router, bk), w0) \<Rightarrow>
          (case limitOrder_approval e props router w0 of
             (Inl err, w1) \<Rightarrow> (Inl err, w1)
           | (Inr u, w1) \<Rightarrow>
               (case limitOrder_tick e props of
                  Inl err \<Rightarrow> (Inl err, w1)
                | Inr tick \<Rightarrow>
                    realtimeWriteContract e (mgvOrder params)
                      (RawLimitOrder (limitOrder_rawParams e props bk tick)) w1)))"

definition limitOrder ::
  "env \<Rightarrow> LimitOrderProps \<Rightarrow> world
     \<Rightarrow> (error + TransactionReceipt \<times> LimitOrderResult) \<times> world"
where
  "limitOrder e props w =
     (case limitOrder_send e props w of
        (Inl err, w') \<Rightarrow> (Inl err, w')
      | (Inr receipt, w') \<Rightarrow>
          if status receipt = reverted then (Inl (Error ''Limit order failed''), w')
          else
            (case limitOrderResultFromLogs e params (market props) (logs receipt) (account e)
                    (bs props) of
               Inl err \<Rightarrow> (Inl err, w')
             | Inr result \<Rightarrow> (Inr (receipt, result), w')))"

definition cancelLimitOrder_send ::
  "env \<Rightarrow> CancelLimitOrderProps \<Rightarrow> world \<Rightarrow> (error + TransactionReceipt) \<times> world"
where
  "cancelLimitOrder_send e props w =
     realtimeWriteContract e (mgvOrder params)
       (RemoveOrder (market props) (bs props) (offerId props)
          (case deprovision props of None \<Rightarrow> True | Some d \<Rightarrow> d)) w"

definition cancelLimitOrder ::
  "env \<Rightarrow> CancelLimitOrderProps \<Rightarrow> world
     \<Rightarrow> (error + TransactionReceipt \<times> RemoveOrderResult) \<times> world"
where
  "cancelLimitOrder e props w =
     (case cancelLimitOrder_send e props w of
        (Inl err, w') \<Rightarrow> (Inl err, w')
      | (Inr receipt, w') \<Rightarrow>
          if status receipt = reverted
          then (Inl (Error ''Limit order cancellation failed''), w')
          else
            (case removeOrderResultFromLogs e params (market props) (logs receipt)
                    (offerId props) (bs props) of
               Inl err \<Rightarrow> (Inl err, w')
             | Inr result \<Rightarrow> (Inr (receipt, result), w')))"

text \<open>
  Modelled from the spec: the SDK's \<open>removeOrderResultFromLogs\<close> (the spec's
  \<open>decodeCancelResult(receipt, offerId)\<close>) is not under src/. It returns
  \<open>{success: bool}\<close> and never fails; success is false if the offer no longer
  existed, which a receipt shows by carrying no removal event for the offer id.
\<close>

definition decodeCancelResult ::
  "Params \<Rightarrow> MarketParams \<Rightarrow> log list \<Rightarrow> nat \<Rightarrow> BS \<Rightarrow> error + RemoveOrderResult"
where
  "decodeCancelResult ps m ls oid side = Inr \<lparr> success = (OfferRemoved oid \<in> set ls) \<rparr>"

section \<open>balances\<close>

text \<open>
  \<open>getBalances\<close> (balances.ts, lines 5 to 37) asks in one multicall for the
  balance of the base and of the quote token of every market (\<open>flatMap\<close>), then
  walks the answers two at a time and stores them in a \<open>Map\<close> by token address.

  Reading a JavaScript array out of range gives \<open>undefined\<close> (\<open>None\<close>); the
  non-null assertion \<open>!\<close> of TypeScript does nothing at run time, so the map can hold
  it. \<open>markets[i / 2]\<close> out of range (or at a fractional index) is \<open>undefined\<close>
  and reading \<open>.base\<close> from it throws.
\<close>

definition js_index :: "'a list \<Rightarrow> nat \<Rightarrow> 'a option" where
  "js_index xs i = (if i < length xs then Some (xs ! i) else None)"

definition balance_contracts :: "MarketParams list \<Rightarrow> Address list" where
  "balance_contracts markets = concat (map (\<lambda>m. [address (base m), address (quote m)]) markets)"

function getBalances_loop ::
  "MarketParams list \<Rightarrow> nat list \<Rightarrow> nat \<Rightarrow> (Address \<rightharpoonup> nat option)
     \<Rightarrow> error + (Address \<rightharpoonup> nat option)"
where
  "getBalances_loop markets results i balances =
     (if i < length results then
        (if even i \<and> i div 2 < length markets then
           (let m = markets ! (i div 2);
                baseBalance = js_index results i;
                quoteBalance = js_index results (i + 1);
                balances1 = balances(address (base m) \<mapsto> baseBalance);
                balances2 = balances1(address (quote m) \<mapsto> quoteBalance)
            in getBalances_loop markets results (i + 2) balances2)
         else Inl (Thrown ''TypeError''))
      else Inr balances)"
  by pat_completeness auto
termination
  by (relation "measure (\<lambda>(markets, results, i, balances). length results - i)") auto

declare getBalances_loop.simps [simp del]

definition getBalances ::
  "env \<Rightarrow> MarketParams list \<Rightarrow> world \<Rightarrow> (error + (Address \<rightharpoonup> nat option)) \<times> world"
where
  "getBalances e markets w =
     (let q = Multicall_balanceOf (balance_contracts markets);
          w' = w\<lparr>trace := trace w @ [q]\<rparr> in
      case multicall_fault e q w of
        Some err \<Rightarrow> (Inl err, w')
      | None \<Rightarrow>
          (getBalances_loop markets (multicall_balanceOf e (balance_contracts markets) w) 0
             Map.empty, w'))"

section \<open>What reaches the submission channel\<close>

text \<open>
  The token both approval checks look at: the one the taker gives, quote on a buy and
  base on a sell.
\<close>

definition gate_token :: "'a TradeProps_scheme \<Rightarrow> Address" where
  "gate_token props =
     (if bs props = buy then address (quote (market props)) else address (base (market props)))"

text \<open>The tick of an order transaction, and the ticks of the orders in a record.\<close>

fun order_tick :: "netcall \<Rightarrow> int option" where
  "order_tick (RealtimeSend addr (MarketOrderByTick k v fw t)) = Some t"
| "order_tick (RealtimeSend addr (RawLimitOrder a)) = Some (arg_tick a)"
| "order_tick c = None"

definition submitted_ticks :: "netcall list \<Rightarrow> int list" where
  "submitted_ticks tr = List.map_filter order_tick tr"

text \<open>The authorization transactions in a record, each with its token.\<close>

fun approval_of :: "netcall \<Rightarrow> (Address \<times> Address \<times> nat) option" where
  "approval_of (RealtimeSend tok (Approve spd amount)) = Some (tok, spd, amount)"
| "approval_of c = None"

definition approvals_sent :: "netcall list \<Rightarrow> (Address \<times> Address \<times> nat) list" where
  "approvals_sent tr = List.map_filter approval_of tr"

section \<open>A test double for the collaborators\<close>

text \<open>
  The theorems below hold for every environment. To run the model on concrete inputs
  the collaborators are replaced by a fake: a node that accepts every transaction with
  an empty receipt, and an SDK whose tick conversion is a stand-in on a linear grid (the
  real one takes a logarithm of a double) that fails on a price that is not positive.
\<close>

definition MEGA :: Token where
  "MEGA = \<lparr> address = ''0xMEGA'', decimals = 18 \<rparr>"

definition USDC :: Token where
  "USDC = \<lparr> address = ''0xUSDC'', decimals = 6 \<rparr>"

definition WETH :: Token where
  "WETH = \<lparr> address = ''0xWETH'', decimals = 18 \<rparr>"

definition MEGA_USDC :: MarketParams where
  "MEGA_USDC = \<lparr> base = MEGA, quote = USDC, tickSpacing = 1 \<rparr>"

definition WETH_USDC :: MarketParams where
  "WETH_USDC = \<lparr> base = WETH, quote = USDC, tickSpacing = 1 \<rparr>"

text \<open>A market that pairs a token with itself.\<close>

definition USDC_USDC :: MarketParams where
  "USDC_USDC = \<lparr> base = USDC, quote = USDC, tickSpacing = 1 \<rparr>"

definition fake_tickFromPrice :: "number \<Rightarrow> int \<Rightarrow> error + int" where
  "fake_tickFromPrice p spacing =
     (case p of
        Finite r \<Rightarrow> if 0 < r then Inr (\<lfloor>r\<rfloor> div spacing * spacing) else Inl (Thrown ''RangeError'')
      | PosInfinity \<Rightarrow> Inl (Thrown ''RangeError'')
      | NegInfinity \<Rightarrow> Inl (Thrown ''RangeError'')
      | NaN \<Rightarrow> Inl (Thrown ''RangeError''))"

definition fake_receipt :: TransactionReceipt where
  "fake_receipt = \<lparr> status = succeeded, logs = [], blockNumber = 1, transactionHash = ''0xabc'' \<rparr>"

definition no_trade :: MarketOrderResult where
  "no_trade = \<lparr> takerGot = 0, takerGave = 0, feePaid = 0, bounty = 0 \<rparr>"

definition no_trade_no_offer :: LimitOrderResult where
  "no_trade_no_offer = \<lparr> takerGot = 0, takerGave = 0, feePaid = 0, bounty = 0, offer = None \<rparr>"

definition fake_book :: Book where
  "fake_book = \<lparr> bidsConfig = LocalConfig 0, asksConfig = LocalConfig 1,
                 marketConfig = GlobalConfig 0 \<rparr>"

definition fake :: env where
  "fake = \<lparr> account = ''0xACCOUNT'',
            MAX_TICK = 887272,
            humanPriceToRawPrice = (\<lambda>p m. p),
            tickFromPrice = fake_tickFromPrice,
            getSemibooksOLKeys = (\<lambda>m.
              \<lparr> asksMarket = OLKey (address (base m)) (address (quote m)) (tickSpacing m),
                bidsMarket = OLKey (address (quote m)) (address (base m)) (tickSpacing m) \<rparr>),
            marketOrderResultFromLogs = (\<lambda>ps m ls side taker. Inr no_trade),
            limitOrderResultFromLogs = (\<lambda>ps m ls user side. Inr no_trade_no_offer),
            removeOrderResultFromLogs = decodeCancelResult,
            multicall_fault = (\<lambda>q w. None),
            multicall_balanceOf = (\<lambda>cs w. map (\<lambda>k. 100 + k) [0..<length cs]),
            rpc_getUserRouter = (\<lambda>user w. Inr ''0xROUTER''),
            rpc_getBook = (\<lambda>m w. Inr fake_book),
            realtime_sendRawTransaction = (\<lambda>addr c w. Inr fake_receipt),
            ledger_after = (\<lambda>addr c w. ledger w) \<rparr>"

text \<open>The same fake with a node that reverts every transaction.\<close>

definition fake_reverting :: env where
  "fake_reverting =
     fake\<lparr> realtime_sendRawTransaction :=
             (\<lambda>addr c w. Inr (fake_receipt\<lparr> status := reverted \<rparr>)) \<rparr>"

definition fresh :: world where
  "fresh = \<lparr> ledger = (\<lambda>tok spd. 0), trace = [] \<rparr>"

definition market_props :: "BS \<Rightarrow> number option \<Rightarrow> bool option \<Rightarrow> MarketOrderProps" where
  "market_props side bound skip =
     \<lparr> market = MEGA_USDC, bs = side, fillVolume = 1000, fillWants = True,
       skipApprovalCheck = skip, maxPrice = bound \<rparr>"

definition limit_props ::
  "BS \<Rightarrow> number \<Rightarrow> bool option \<Rightarrow> Address option \<Rightarrow> LimitOrderProps"
where
  "limit_props side p skip router =
     \<lparr> market = MEGA_USDC, bs = side, fillVolume = 1000, fillWants = True,
       skipApprovalCheck = skip, price = p, orderType = None, baseTokenLogic = None,
       quoteTokenLogic = None, userRouter = router, book = None,
       restingOrderGasreq = None, expiryDate = None, msgValue = None \<rparr>"

definition cancel_props :: "nat \<Rightarrow> CancelLimitOrderProps" where
  "cancel_props oid = \<lparr> market = MEGA_USDC, bs = buy, offerId = oid, deprovision = None \<rparr>"

section \<open>The record of network calls\<close>

text \<open>
  Each operation appends its network calls to the record; the lemmas below say exactly
  which, for the submission path, the approval checks and the two orchestrators that
  carry a tick.
\<close>

lemma trace_realtimeWriteContract:
  "trace (snd (realtimeWriteContract e a c w)) = trace w @ [RealtimeSend a c]"
  by (simp add: realtimeWriteContract_def Let_def split: sum.splits)

lemma realtimeWriteContract_cases:
  "realtimeWriteContract e a c w = (r, w') \<Longrightarrow>
     trace w' = trace w @ [RealtimeSend a c] \<and> r = realtime_sendRawTransaction e a c w"
  by (auto simp add: realtimeWriteContract_def Let_def split: sum.splits)

lemma getApprovals_one:
  "getApprovals e [(tok, spd)] w =
     (case multicall_fault e (Multicall_allowance [(tok, spd)]) w of
        Some err \<Rightarrow> (Inl err, w\<lparr>trace := trace w @ [Multicall_allowance [(tok, spd)]]\<rparr>)
      | None \<Rightarrow>
          (Inr [\<lparr>token = tok, spender = spd, allowance = ledger w tok spd\<rparr>],
           w\<lparr>trace := trace w @ [Multicall_allowance [(tok, spd)]]\<rparr>))"
  by (simp add: getApprovals_def Let_def split: option.splits)

lemma trace_giveApprovalTo:
  "trace (snd (giveApprovalTo e tok spd None w)) = trace w @ [RealtimeSend tok (Approve spd maxUint256)]"
  by (simp add: giveApprovalTo_def realtimeWriteContract_def Let_def split: sum.splits)

lemma fst_giveApprovalTo:
  "(\<exists>r. fst (giveApprovalTo e tok spd None w) = Inr r) =
     (\<exists>r. realtime_sendRawTransaction e tok (Approve spd maxUint256) w = Inr r \<and> status r \<noteq> reverted)"
  by (auto simp add: giveApprovalTo_def realtimeWriteContract_def Let_def split: sum.splits)

lemma marketOrder_approval_unfold:
  "marketOrder_approval e props w =
     (if skipApprovalCheck props = Some True then (Inr (), w)
      else
        (case multicall_fault e (Multicall_allowance [(gate_token props, mgv params)]) w of
           Some err \<Rightarrow>
             (Inl err, w\<lparr>trace := trace w @ [Multicall_allowance [(gate_token props, mgv params)]]\<rparr>)
         | None \<Rightarrow>
             if ledger w (gate_token props) (mgv params) < maxUint128 then
               (case giveApprovalTo e (gate_token props) (mgv params) None
                       (w\<lparr>trace := trace w @ [Multicall_allowance [(gate_token props, mgv params)]]\<rparr>) of
                  (Inl err, w2) \<Rightarrow> (Inl err, w2)
                | (Inr receipt, w2) \<Rightarrow> (Inr (), w2))
             else (Inr (), w\<lparr>trace := trace w @ [Multicall_allowance [(gate_token props, mgv params)]]\<rparr>)))"
proof -
  have tok: "(if bs props = buy then address (quote (market props))
              else address (base (market props))) = gate_token props"
    by (simp add: gate_token_def)
  have skip: "(case skipApprovalCheck props of None \<Rightarrow> False | Some b \<Rightarrow> b)
                = (skipApprovalCheck props = Some True)"
    by (simp split: option.splits)
  show ?thesis
    unfolding marketOrder_approval_def tok skip Let_def getApprovals_one
    by (simp split: option.splits)
qed

lemma trace_marketOrder_approval:
  "trace (snd (marketOrder_approval e props w)) =
     trace w @
       (if skipApprovalCheck props = Some True then []
        else Multicall_allowance [(gate_token props, mgv params)] #
          (if multicall_fault e (Multicall_allowance [(gate_token props, mgv params)]) w = None
              \<and> ledger w (gate_token props) (mgv params) < maxUint128
           then [RealtimeSend (gate_token props) (Approve (mgv params) maxUint256)] else []))"
proof -
  let ?w1 = "w\<lparr>trace := trace w @ [Multicall_allowance [(gate_token props, mgv params)]]\<rparr>"
  have "trace (snd (case giveApprovalTo e (gate_token props) (mgv params) None ?w1 of
                  (Inl err, w2) \<Rightarrow> (Inl err, w2)
                | (Inr receipt, w2) \<Rightarrow> (Inr (), w2)))
        = trace (snd (giveApprovalTo e (gate_token props) (mgv params) None ?w1))"
    by (simp split: prod.splits sum.splits)
  then show ?thesis
    by (simp add: marketOrder_approval_unfold trace_giveApprovalTo split: option.splits)
qed

lemma submitted_ticks_append: "submitted_ticks (xs @ ys) = submitted_ticks xs @ submitted_ticks ys"
  by (simp add: submitted_ticks_def map_filter_def)

lemma submitted_ticks_simps:
  "submitted_ticks [] = []"
  "submitted_ticks (x # xs) = (case order_tick x of None \<Rightarrow> submitted_ticks xs | Some t \<Rightarrow> t # submitted_ticks xs)"
  by (simp_all add: submitted_ticks_def map_filter_def split: option.splits)

lemma submitted_ticks_marketOrder_approval:
  "submitted_ticks (trace (snd (marketOrder_approval e props w))) = submitted_ticks (trace w)"
  by (simp add: trace_marketOrder_approval submitted_ticks_append submitted_ticks_simps)

lemma marketOrder_submitted_ticks:
  "submitted_ticks (trace (snd (marketOrder e props w))) =
     submitted_ticks (trace w) @
       (case marketOrder_maxTick e props of
          Inl err \<Rightarrow> []
        | Inr t \<Rightarrow> if fst (marketOrder_approval e props w) = Inr () then [t] else [])"
proof (cases "marketOrder_maxTick e props")
  case (Inl err)
  then show ?thesis by (simp add: marketOrder_def marketOrder_send_def)
next
  case (Inr t)
  obtain r w1 where g: "marketOrder_approval e props w = (r, w1)" by (cases "marketOrder_approval e props w")
  have w1: "submitted_ticks (trace w1) = submitted_ticks (trace w)"
    using submitted_ticks_marketOrder_approval[of e props w] g by simp
  show ?thesis
  proof (cases r)
    case (Inl err)
    then show ?thesis using Inr g w1 by (simp add: marketOrder_def marketOrder_send_def)
  next
    case (Inr u)
    obtain r2 w2 where s: "realtimeWriteContract e (mgv params)
         (MarketOrderByTick (if bs props = buy then asksMarket (getSemibooksOLKeys e (market props))
             else bidsMarket (getSemibooksOLKeys e (market props))) (fillVolume props) (fillWants props) t) w1 = (r2, w2)"
      by (cases "realtimeWriteContract e (mgv params)
         (MarketOrderByTick (if bs props = buy then asksMarket (getSemibooksOLKeys e (market props))
             else bidsMarket (getSemibooksOLKeys e (market props))) (fillVolume props) (fillWants props) t) w1")
    from realtimeWriteContract_cases[OF s]
    have "submitted_ticks (trace w2) = submitted_ticks (trace w) @ [t]"
      by (simp add: submitted_ticks_append submitted_ticks_simps w1)
    moreover have "snd (marketOrder e props w) = w2"
      using \<open>marketOrder_maxTick e props = Inr t\<close> g Inr s
      by (simp add: marketOrder_def marketOrder_send_def Let_def split: sum.splits)
    ultimately show ?thesis using \<open>marketOrder_maxTick e props = Inr t\<close> g Inr by simp
  qed
qed


lemma limitOrder_approval_unfold:
  "limitOrder_approval e props router w =
     (if skipApprovalCheck props = Some True then (Inr (), w)
      else
        (case multicall_fault e (Multicall_allowance [(gate_token props, router)]) w of
           Some err \<Rightarrow>
             (Inl err, w\<lparr>trace := trace w @ [Multicall_allowance [(gate_token props, router)]]\<rparr>)
         | None \<Rightarrow>
             if ledger w (gate_token props) router < maxUint128 then
               (case giveApprovalTo e (gate_token props) (mgv params) None
                       (w\<lparr>trace := trace w @ [Multicall_allowance [(gate_token props, router)]]\<rparr>) of
                  (Inl err, w2) \<Rightarrow> (Inl err, w2)
                | (Inr receipt, w2) \<Rightarrow> (Inr (), w2))
             else (Inr (), w\<lparr>trace := trace w @ [Multicall_allowance [(gate_token props, router)]]\<rparr>)))"
proof -
  have tok: "(if bs props = buy then address (quote (market props))
              else address (base (market props))) = gate_token props"
    by (simp add: gate_token_def)
  have skip: "(case skipApprovalCheck props of None \<Rightarrow> False | Some b \<Rightarrow> b)
                = (skipApprovalCheck props = Some True)"
    by (simp split: option.splits)
  show ?thesis
    unfolding limitOrder_approval_def tok skip Let_def getApprovals_one
    by (simp split: option.splits)
qed

lemma trace_limitOrder_approval:
  "trace (snd (limitOrder_approval e props router w)) =
     trace w @
       (if skipApprovalCheck props = Some True then []
        else Multicall_allowance [(gate_token props, router)] #
          (if multicall_fault e (Multicall_allowance [(gate_token props, router)]) w = None
              \<and> ledger w (gate_token props) router < maxUint128
           then [RealtimeSend (gate_token props) (Approve (mgv params) maxUint256)] else []))"
proof -
  let ?w1 = "w\<lparr>trace := trace w @ [Multicall_allowance [(gate_token props, router)]]\<rparr>"
  have "trace (snd (case giveApprovalTo e (gate_token props) (mgv params) None ?w1 of
                  (Inl err, w2) \<Rightarrow> (Inl err, w2)
                | (Inr receipt, w2) \<Rightarrow> (Inr (), w2)))
        = trace (snd (giveApprovalTo e (gate_token props) (mgv params) None ?w1))"
    by (simp split: prod.splits sum.splits)
  then show ?thesis
    by (simp add: limitOrder_approval_unfold trace_giveApprovalTo split: option.splits)
qed

lemma submitted_ticks_limitOrder_approval:
  "submitted_ticks (trace (snd (limitOrder_approval e props router w))) = submitted_ticks (trace w)"
  by (simp add: trace_limitOrder_approval submitted_ticks_append submitted_ticks_simps)

lemma trace_limitOrder_defaults:
  "trace (snd (limitOrder_defaults e props w)) =
     trace w @
       (case userRouter props of
          Some r \<Rightarrow> (case book props of Some b \<Rightarrow> [] | None \<Rightarrow> [GetBook (market props)])
        | None \<Rightarrow>
            GetUserRouter (account e) #
              (case rpc_getUserRouter e (account e) w of
                 Inl err \<Rightarrow> []
               | Inr r \<Rightarrow> (case book props of Some b \<Rightarrow> [] | None \<Rightarrow> [GetBook (market props)])))"
  by (simp add: limitOrder_defaults_def getUserRouter_def getBook_def
           split: option.splits sum.splits prod.splits)

lemma submitted_ticks_limitOrder_defaults:
  "submitted_ticks (trace (snd (limitOrder_defaults e props w))) = submitted_ticks (trace w)"
  by (simp add: trace_limitOrder_defaults submitted_ticks_append submitted_ticks_simps
           split: option.splits sum.splits)

lemma limitOrder_submitted_ticks:
  "submitted_ticks (trace (snd (limitOrder e props w))) =
     submitted_ticks (trace w) @
       (case limitOrder_defaults e props w of
          (Inl err, w0) \<Rightarrow> []
        | (Inr (router, bk), w0) \<Rightarrow>
            (case fst (limitOrder_approval e props router w0) of
               Inl err \<Rightarrow> []
             | Inr u \<Rightarrow> (case limitOrder_tick e props of Inl err \<Rightarrow> [] | Inr t \<Rightarrow> [t])))"
proof -
  obtain d w0 where d: "limitOrder_defaults e props w = (d, w0)"
    by (cases "limitOrder_defaults e props w")
  have w0: "submitted_ticks (trace w0) = submitted_ticks (trace w)"
    using submitted_ticks_limitOrder_defaults[of e props w] d by simp
  show ?thesis
  proof (cases d)
    case (Inl err)
    then show ?thesis using d w0 by (simp add: limitOrder_def limitOrder_send_def)
  next
    case (Inr rb)
    obtain router bk where rb: "rb = (router, bk)" by (cases rb)
    obtain g w1 where g: "limitOrder_approval e props router w0 = (g, w1)"
      by (cases "limitOrder_approval e props router w0")
    have w1: "submitted_ticks (trace w1) = submitted_ticks (trace w)"
      using submitted_ticks_limitOrder_approval[of e props router w0] g w0 by simp
    show ?thesis
    proof (cases g)
      case (Inl err)
      then show ?thesis using d Inr rb g w1 by (simp add: limitOrder_def limitOrder_send_def)
    next
      case gate: (Inr u)
      show ?thesis
      proof (cases "limitOrder_tick e props")
        case (Inl err)
        then show ?thesis using d Inr rb g gate w1 by (simp add: limitOrder_def limitOrder_send_def)
      next
        case tick: (Inr t)
        obtain r2 w2 where s: "realtimeWriteContract e (mgvOrder params)
            (RawLimitOrder (limitOrder_rawParams e props bk t)) w1 = (r2, w2)"
          by (cases "realtimeWriteContract e (mgvOrder params)
            (RawLimitOrder (limitOrder_rawParams e props bk t)) w1")
        have "arg_tick (limitOrder_rawParams e props bk t) = t"
          by (simp add: limitOrder_rawParams_def Let_def)
        with realtimeWriteContract_cases[OF s]
        have "submitted_ticks (trace w2) = submitted_ticks (trace w) @ [t]"
          by (simp add: submitted_ticks_append submitted_ticks_simps w1)
        moreover have "snd (limitOrder e props w) = w2"
          using d Inr rb g gate tick s
          by (simp add: limitOrder_def limitOrder_send_def split: sum.splits)
        ultimately show ?thesis using d Inr rb g gate tick by simp
      qed
    qed
  qed
qed

text \<open>Unfolding sets for running the model on the test double.\<close>

lemmas fake_defs = fake_def fake_reverting_def market_props_def limit_props_def cancel_props_def fresh_def
     fake_tickFromPrice_def MEGA_USDC_def WETH_USDC_def USDC_def MEGA_def WETH_def fake_receipt_def fake_book_def
     no_trade_def no_trade_no_offer_def
lemmas model_defs = marketOrder_def marketOrder_send_def marketOrder_maxTick_def marketOrder_approval_def
     getApprovals_def giveApprovalTo_def realtimeWriteContract_def truthy_def params_def maxUint128_def maxUint256_def Let_def
     limitOrder_def limitOrder_send_def limitOrder_defaults_def limitOrder_approval_def limitOrder_tick_def
     limitOrder_rawParams_def getUserRouter_def getBook_def zeroAddress_def cancelLimitOrder_def cancelLimitOrder_send_def
     submitted_ticks_simps

section \<open>Price to tick\<close>

text \<open>
  Claim C2. For a valid human price (finite and positive), the tick computed for a buy
  is the negation of the tick computed for a sell at the same price, in the conversion of
  \<open>marketOrder\<close> and in that of \<open>limitOrder\<close>, whatever the SDK's conversion
  returns; where the SDK's conversion throws, both directions throw the same error.
\<close>

theorem tick_buy_is_negated_sell:
  assumes "0 < r"
  shows "marketOrder_maxTick e (mp\<lparr>bs := buy, maxPrice := Some (Finite r)\<rparr>) =
           map_sum id uminus (marketOrder_maxTick e (mp\<lparr>bs := sell, maxPrice := Some (Finite r)\<rparr>))
       \<and> limitOrder_tick e (lp\<lparr>bs := buy, price := Finite r\<rparr>) =
           map_sum id uminus (limitOrder_tick e (lp\<lparr>bs := sell, price := Finite r\<rparr>))"
  using assms
  by (simp add: marketOrder_maxTick_def limitOrder_tick_def truthy_def Let_def split: sum.splits)

text \<open>On the test double at price 100 the ticks are -100 for a buy and 100 for a sell.\<close>

theorem tick_buy_is_negated_sell_witness:
  "(0::real) < 100 \<and>
   marketOrder_maxTick fake (market_props buy (Some (Finite 100)) None) = Inr (- 100) \<and>
   marketOrder_maxTick fake (market_props sell (Some (Finite 100)) None) = Inr 100 \<and>
   limitOrder_tick fake (limit_props buy (Finite 100) None None) = Inr (- 100) \<and>
   limitOrder_tick fake (limit_props sell (Finite 100) None None) = Inr 100"
  using tick_buy_is_negated_sell[of 100 fake "market_props sell None None" "limit_props sell NaN None None"]
  by (simp add: fake_defs model_defs)

text \<open>
  Claim C9. A market order without a price bound computes the tick \<open>MAX_TICK\<close>, and
  the order it submits (it submits one exactly when the approval check does not fail)
  carries \<open>MAX_TICK\<close>, for a buy and for a sell alike.
\<close>

theorem marketOrder_unbounded_uses_MAX_TICK:
  assumes "maxPrice props = None"
  shows "marketOrder_maxTick e props = Inr (MAX_TICK e) \<and>
         submitted_ticks (trace (snd (marketOrder e props w))) =
           submitted_ticks (trace w) @
             (if fst (marketOrder_approval e props w) = Inr () then [MAX_TICK e] else [])"
proof -
  have t: "marketOrder_maxTick e props = Inr (MAX_TICK e)"
    using assms by (simp add: marketOrder_maxTick_def)
  show ?thesis
    using t marketOrder_submitted_ticks[of e props w] by simp
qed

text \<open>On the test double both directions submit one order, with tick 887272.\<close>

theorem marketOrder_unbounded_uses_MAX_TICK_witness:
  "maxPrice (market_props buy None None) = None \<and>
   maxPrice (market_props sell None None) = None \<and>
   submitted_ticks (trace (snd (marketOrder fake (market_props buy None None) fresh))) = [887272] \<and>
   submitted_ticks (trace (snd (marketOrder fake (market_props sell None None) fresh))) = [887272] \<and>
   MAX_TICK fake = 887272"
  using marketOrder_unbounded_uses_MAX_TICK[of "market_props buy None None" fake fresh]
        marketOrder_unbounded_uses_MAX_TICK[of "market_props sell None None" fake fresh]
  by (simp add: fake_defs model_defs)




text \<open>
  Claim C5 as stated fails: the client validates no price and has no
  \<open>InvalidPriceError\<close>. In \<open>marketOrder\<close> a price bound of 0 is falsy and takes the
  branch of an absent bound: the conversion returns \<open>MAX_TICK\<close> and the order is
  submitted. In \<open>limitOrder\<close> a price that the SDK's conversion rejects (here -5)
  fails the call only after four network calls, one of them an approval transaction.
\<close>

theorem nonpositive_price_is_not_rejected:
  "marketOrder_maxTick fake (market_props sell (Some (Finite 0)) None) = Inr (MAX_TICK fake)
   \<and> fst (marketOrder fake (market_props sell (Some (Finite 0)) None) fresh) = Inr (fake_receipt, no_trade)
   \<and> submitted_ticks (trace (snd (marketOrder fake (market_props sell (Some (Finite 0)) None) fresh)))
        = [887272]
   \<and> fst (limitOrder fake (limit_props buy (Finite (- 5)) None None) fresh) = Inl (Thrown ''RangeError'')
   \<and> trace (snd (limitOrder fake (limit_props buy (Finite (- 5)) None None) fresh)) =
       [GetUserRouter ''0xACCOUNT'', GetBook MEGA_USDC,
        Multicall_allowance [(''0xUSDC'', ''0xROUTER'')],
        RealtimeSend ''0xUSDC'' (Approve (mgv params) maxUint256)]"
  by (simp add: fake_defs model_defs)

text \<open>
  Claim C5, amended. A price is rejected only by the SDK's conversion, with the SDK's
  error. In \<open>marketOrder\<close> a truthy price bound that the conversion rejects fails the
  call before any network call: the world is unchanged. In \<open>limitOrder\<close> the
  conversion runs after the router and book reads and the approval check: when it
  rejects the price the call fails and no order is submitted, and where the reads and
  the check pass the error is the conversion's and the world is the one they left.
\<close>

theorem conversion_failure_propagates:
  "(maxPrice mp = Some p \<and> truthy p
      \<and> tickFromPrice e (humanPriceToRawPrice e p (market mp)) (tickSpacing (market mp)) = Inl err
      \<longrightarrow> marketOrder e mp w = (Inl err, w))
   \<and> (tickFromPrice e (humanPriceToRawPrice e (price lp) (market lp)) (tickSpacing (market lp)) = Inl err
      \<longrightarrow> (\<exists>x. fst (limitOrder e lp w) = Inl x)
          \<and> submitted_ticks (trace (snd (limitOrder e lp w))) = submitted_ticks (trace w)
          \<and> (\<forall>router bk w0 w1.
                limitOrder_defaults e lp w = (Inr (router, bk), w0)
                \<and> limitOrder_approval e lp router w0 = (Inr (), w1)
                \<longrightarrow> limitOrder e lp w = (Inl err, w1)))"
proof (intro conjI impI)
  assume "maxPrice mp = Some p \<and> truthy p
      \<and> tickFromPrice e (humanPriceToRawPrice e p (market mp)) (tickSpacing (market mp)) = Inl err"
  then show "marketOrder e mp w = (Inl err, w)"
    by (simp add: marketOrder_def marketOrder_send_def marketOrder_maxTick_def Let_def)
next
  assume f: "tickFromPrice e (humanPriceToRawPrice e (price lp) (market lp)) (tickSpacing (market lp)) = Inl err"
  then have t: "limitOrder_tick e lp = Inl err"
    by (simp add: limitOrder_tick_def Let_def)
  show "\<exists>x. fst (limitOrder e lp w) = Inl x"
    using t by (simp add: limitOrder_def limitOrder_send_def split: prod.splits sum.splits)
  show "submitted_ticks (trace (snd (limitOrder e lp w))) = submitted_ticks (trace w)"
    using t by (simp add: limitOrder_submitted_ticks split: prod.splits sum.splits)
  show "\<forall>router bk w0 w1.
                limitOrder_defaults e lp w = (Inr (router, bk), w0)
                \<and> limitOrder_approval e lp router w0 = (Inr (), w1)
                \<longrightarrow> limitOrder e lp w = (Inl err, w1)"
    using t by (simp add: limitOrder_def limitOrder_send_def)
qed

text \<open>
  On the test double at price -5: \<open>marketOrder\<close> fails with the conversion's error
  and no network call; \<open>limitOrder\<close> fails with it and submits no order.
\<close>

theorem conversion_failure_propagates_witness:
  "maxPrice (market_props buy (Some (Finite (- 5))) None) = Some (Finite (- 5)) \<and> truthy (Finite (- 5))
   \<and> tickFromPrice fake (humanPriceToRawPrice fake (Finite (- 5)) MEGA_USDC) (tickSpacing MEGA_USDC)
       = Inl (Thrown ''RangeError'')
   \<and> marketOrder fake (market_props buy (Some (Finite (- 5))) None) fresh = (Inl (Thrown ''RangeError''), fresh)
   \<and> fst (limitOrder fake (limit_props buy (Finite (- 5)) None None) fresh) = Inl (Thrown ''RangeError'')
   \<and> submitted_ticks (trace (snd (limitOrder fake (limit_props buy (Finite (- 5)) None None) fresh))) = []"
  using conversion_failure_propagates[of "market_props buy (Some (Finite (- 5))) None" "Finite (- 5)" fake
          "Thrown ''RangeError''" fresh "limit_props buy (Finite (- 5)) None None"]
  by (simp add: fake_defs model_defs)

section \<open>The approval check\<close>

lemma fst_marketOrder_approval:
  assumes "skipApprovalCheck props \<noteq> Some True"
    and "multicall_fault e (Multicall_allowance [(gate_token props, mgv params)]) w = None"
  shows "(fst (marketOrder_approval e props w) = Inr ()) =
           (maxUint128 \<le> ledger w (gate_token props) (mgv params)
            \<or> (\<exists>r. realtime_sendRawTransaction e (gate_token props) (Approve (mgv params) maxUint256)
                      (w\<lparr>trace := trace w @ [Multicall_allowance [(gate_token props, mgv params)]]\<rparr>) = Inr r
                    \<and> status r \<noteq> reverted))"
proof (cases "ledger w (gate_token props) (mgv params) < maxUint128")
  case True
  let ?w1 = "w\<lparr>trace := trace w @ [Multicall_allowance [(gate_token props, mgv params)]]\<rparr>"
  have "(fst (marketOrder_approval e props w) = Inr ()) =
          (\<exists>r. fst (giveApprovalTo e (gate_token props) (mgv params) None ?w1) = Inr r)"
    using assms True
    by (auto simp add: marketOrder_approval_unfold split: prod.splits sum.splits)
  then show ?thesis using True by (simp add: fst_giveApprovalTo)
next
  case False
  then show ?thesis using assms by (simp add: marketOrder_approval_unfold)
qed

lemma trace_marketOrder:
  "trace (snd (marketOrder e props w)) =
     (case marketOrder_maxTick e props of
        Inl err \<Rightarrow> trace w
      | Inr t \<Rightarrow>
          trace (snd (marketOrder_approval e props w)) @
            (if fst (marketOrder_approval e props w) = Inr () then
               [RealtimeSend (mgv params)
                  (MarketOrderByTick
                     (if bs props = buy then asksMarket (getSemibooksOLKeys e (market props))
                      else bidsMarket (getSemibooksOLKeys e (market props)))
                     (fillVolume props) (fillWants props) t)]
             else []))"
proof (cases "marketOrder_maxTick e props")
  case (Inl err)
  then show ?thesis by (simp add: marketOrder_def marketOrder_send_def)
next
  case (Inr t)
  obtain r w1 where g: "marketOrder_approval e props w = (r, w1)"
    by (cases "marketOrder_approval e props w")
  show ?thesis
  proof (cases r)
    case (Inl err)
    then show ?thesis using Inr g by (simp add: marketOrder_def marketOrder_send_def)
  next
    case gate: (Inr u)
    let ?c = "MarketOrderByTick
                (if bs props = buy then asksMarket (getSemibooksOLKeys e (market props))
                 else bidsMarket (getSemibooksOLKeys e (market props)))
                (fillVolume props) (fillWants props) t"
    obtain r2 w2 where s: "realtimeWriteContract e (mgv params) ?c w1 = (r2, w2)"
      by (cases "realtimeWriteContract e (mgv params) ?c w1")
    have "snd (marketOrder e props w) = w2"
      using Inr g gate s
      by (simp add: marketOrder_def marketOrder_send_def Let_def split: sum.splits)
    with realtimeWriteContract_cases[OF s] show ?thesis using Inr g gate by simp
  qed
qed

text \<open>
  The approval check of \<open>marketOrder\<close> (not skipped, allowance read answered) reads
  the allowance the account has given Mangrove on the token the taker gives. Below
  \<open>maxUint128\<close> it sends exactly one transaction, \<open>approve\<close> of \<open>maxUint256\<close>
  to Mangrove on that token; at or above it sends none. The check passes exactly when
  the allowance was enough or the approval came back with a receipt that is not
  reverted, and \<open>marketOrder\<close> sends its order after the check's calls and only when
  the check has passed.
\<close>

theorem marketOrder_approval_gate:
  assumes "skipApprovalCheck props \<noteq> Some True"
    and "multicall_fault e (Multicall_allowance [(gate_token props, mgv params)]) w = None"
  shows "trace (snd (marketOrder_approval e props w)) =
           trace w @ Multicall_allowance [(gate_token props, mgv params)] #
             (if ledger w (gate_token props) (mgv params) < maxUint128
              then [RealtimeSend (gate_token props) (Approve (mgv params) maxUint256)] else [])
       \<and> (fst (marketOrder_approval e props w) = Inr ()) =
           (maxUint128 \<le> ledger w (gate_token props) (mgv params)
            \<or> (\<exists>r. realtime_sendRawTransaction e (gate_token props) (Approve (mgv params) maxUint256)
                      (w\<lparr>trace := trace w @ [Multicall_allowance [(gate_token props, mgv params)]]\<rparr>) = Inr r
                    \<and> status r \<noteq> reverted))
       \<and> (\<forall>t. marketOrder_maxTick e props = Inr t \<longrightarrow>
            trace (snd (marketOrder e props w)) =
              trace (snd (marketOrder_approval e props w)) @
                (if fst (marketOrder_approval e props w) = Inr () then
                   [RealtimeSend (mgv params)
                      (MarketOrderByTick
                         (if bs props = buy then asksMarket (getSemibooksOLKeys e (market props))
                          else bidsMarket (getSemibooksOLKeys e (market props)))
                         (fillVolume props) (fillWants props) t)]
                 else []))"
proof (intro conjI)
  show "trace (snd (marketOrder_approval e props w)) =
           trace w @ Multicall_allowance [(gate_token props, mgv params)] #
             (if ledger w (gate_token props) (mgv params) < maxUint128
              then [RealtimeSend (gate_token props) (Approve (mgv params) maxUint256)] else [])"
    using assms by (simp add: trace_marketOrder_approval)
  show "(fst (marketOrder_approval e props w) = Inr ()) =
           (maxUint128 \<le> ledger w (gate_token props) (mgv params)
            \<or> (\<exists>r. realtime_sendRawTransaction e (gate_token props) (Approve (mgv params) maxUint256)
                      (w\<lparr>trace := trace w @ [Multicall_allowance [(gate_token props, mgv params)]]\<rparr>) = Inr r
                    \<and> status r \<noteq> reverted))"
    using assms by (rule fst_marketOrder_approval)
  show "\<forall>t. marketOrder_maxTick e props = Inr t \<longrightarrow>
            trace (snd (marketOrder e props w)) =
              trace (snd (marketOrder_approval e props w)) @
                (if fst (marketOrder_approval e props w) = Inr () then
                   [RealtimeSend (mgv params)
                      (MarketOrderByTick
                         (if bs props = buy then asksMarket (getSemibooksOLKeys e (market props))
                          else bidsMarket (getSemibooksOLKeys e (market props)))
                         (fillVolume props) (fillWants props) t)]
                 else [])"
    by (simp add: trace_marketOrder)
qed

text \<open>
  On the test double with no allowance: one read, one approval, then the order; with a
  node that reverts the approval, the call fails and no order follows.
\<close>

theorem marketOrder_approval_gate_witness:
  "skipApprovalCheck (market_props buy (Some (Finite 100)) None) \<noteq> Some True
   \<and> multicall_fault fake
        (Multicall_allowance [(gate_token (market_props buy (Some (Finite 100)) None), mgv params)])
        fresh = None
   \<and> ledger fresh ''0xUSDC'' (mgv params) = 0
   \<and> trace (snd (marketOrder_approval fake (market_props buy (Some (Finite 100)) None) fresh)) =
       [Multicall_allowance [(''0xUSDC'', mgv params)],
        RealtimeSend ''0xUSDC'' (Approve (mgv params) maxUint256)]
   \<and> fst (marketOrder_approval fake (market_props buy (Some (Finite 100)) None) fresh) = Inr ()
   \<and> trace (snd (marketOrder fake (market_props buy (Some (Finite 100)) None) fresh)) =
       [Multicall_allowance [(''0xUSDC'', mgv params)],
        RealtimeSend ''0xUSDC'' (Approve (mgv params) maxUint256),
        RealtimeSend (mgv params) (MarketOrderByTick (OLKey ''0xMEGA'' ''0xUSDC'' 1) 1000 True (- 100))]
   \<and> trace (snd (marketOrder fake_reverting (market_props buy (Some (Finite 100)) None) fresh)) =
       [Multicall_allowance [(''0xUSDC'', mgv params)],
        RealtimeSend ''0xUSDC'' (Approve (mgv params) maxUint256)]
   \<and> fst (marketOrder fake_reverting (market_props buy (Some (Finite 100)) None) fresh) =
       Inl (Error ''Approval failed'')"
  using marketOrder_approval_gate[of "market_props buy (Some (Finite 100)) None" fake fresh]
        marketOrder_approval_gate[of "market_props buy (Some (Finite 100)) None" fake_reverting fresh]
  by (simp add: fake_defs model_defs gate_token_def)

text \<open>
  The approval check of \<open>marketOrder\<close> is idempotent: once it has passed, running it
  again on the world it left sends no approval and leaves the allowances alone.
\<close>

lemma marketOrder_approval_idempotent:
  assumes "marketOrder_approval e props w = (Inr (), w1)"
  shows "approvals_sent (trace (snd (marketOrder_approval e props w1))) = approvals_sent (trace w1)
         \<and> ledger (snd (marketOrder_approval e props w1)) = ledger w1"
proof (cases "skipApprovalCheck props = Some True")
  case True
  then show ?thesis by (simp add: marketOrder_approval_unfold)
next
  case False
  let ?tok = "gate_token props"
  let ?q = "Multicall_allowance [(?tok, mgv params)]"
  have enough: "maxUint128 \<le> ledger w1 ?tok (mgv params)"
  proof (cases "ledger w ?tok (mgv params) < maxUint128")
    case low: True
    from assms False low obtain receipt where
      g: "giveApprovalTo e ?tok (mgv params) None (w\<lparr>trace := trace w @ [?q]\<rparr>) = (Inr receipt, w1)"
      by (auto simp add: marketOrder_approval_unfold split: option.splits prod.splits sum.splits)
    then have "ledger w1 ?tok (mgv params) = maxUint256"
      by (auto simp add: giveApprovalTo_def realtimeWriteContract_def Let_def
               split: sum.splits if_splits)
    then show ?thesis by (simp add: maxUint128_def maxUint256_def)
  next
    case high: False
    with assms False have "ledger w1 = ledger w"
      by (auto simp add: marketOrder_approval_unfold split: option.splits)
    with high show ?thesis by simp
  qed
  have tr: "approvals_sent (xs @ [?q]) = approvals_sent xs" for xs
    by (simp add: approvals_sent_def map_filter_def)
  from enough False show ?thesis
    by (auto simp add: marketOrder_approval_unfold tr split: option.splits)
qed

text \<open>
  Claim C4 fails for the approval check of \<open>limitOrder\<close>: the spender whose
  allowance it reads is the user router, and the one transaction it sends below the
  threshold grants \<open>maxUint256\<close> to Mangrove (\<open>params.mgv\<close>), not to that
  spender. On the test double, with no allowance to start with and the router
  \<open>0xROUTER\<close>, the router's allowance is still 0 after the check and Mangrove's is
  \<open>maxUint256\<close>.
\<close>

theorem limitOrder_approval_grants_other_spender:
  "trace (snd (limitOrder_approval fake (limit_props buy (Finite 100) None None) ''0xROUTER'' fresh))
     = [Multicall_allowance [(''0xUSDC'', ''0xROUTER'')],
        RealtimeSend ''0xUSDC'' (Approve (mgv params) maxUint256)]
   \<and> mgv params \<noteq> ''0xROUTER''
   \<and> ledger (snd (limitOrder_approval fake (limit_props buy (Finite 100) None None) ''0xROUTER'' fresh))
        ''0xUSDC'' ''0xROUTER'' = 0
   \<and> ledger (snd (limitOrder_approval fake (limit_props buy (Finite 100) None None) ''0xROUTER'' fresh))
        ''0xUSDC'' (mgv params) = maxUint256"
  by (simp add: fake_defs model_defs)

text \<open>
  Claim C1 fails for the approval check of \<open>limitOrder\<close>, which reads the allowance
  of the user router but approves Mangrove (\<open>params.mgv\<close>): the allowance it reads is
  not the one it raises. Run twice in succession on the test double, with no allowance
  to start with and the router \<open>0xROUTER\<close>, the check passes the first time, the
  router's allowance is still 0, and the two runs have sent two approvals.
\<close>

theorem limitOrder_approval_twice_approves_twice:
  "fst (limitOrder_approval fake (limit_props buy (Finite 100) None None) ''0xROUTER'' fresh) = Inr ()
   \<and> approvals_sent (trace (snd (limitOrder_approval fake (limit_props buy (Finite 100) None None) ''0xROUTER''
        (snd (limitOrder_approval fake (limit_props buy (Finite 100) None None) ''0xROUTER'' fresh)))))
       = [(''0xUSDC'', mgv params, maxUint256), (''0xUSDC'', mgv params, maxUint256)]
   \<and> ledger (snd (limitOrder_approval fake (limit_props buy (Finite 100) None None) ''0xROUTER'' fresh))
        ''0xUSDC'' ''0xROUTER'' = 0"
  by (simp add: fake_defs model_defs approvals_sent_def map_filter_def)

section \<open>Receipts and results\<close>

text \<open>Nothing before the receipt looks at a decoder.\<close>

lemma settle_ignores_decoders:
  "settle (e\<lparr>marketOrderResultFromLogs := d1\<rparr>) addr c receipt w = settle e addr c receipt w"
  "settle (e\<lparr>limitOrderResultFromLogs := d2\<rparr>) addr c receipt w = settle e addr c receipt w"
  "settle (e\<lparr>removeOrderResultFromLogs := d3\<rparr>) addr c receipt w = settle e addr c receipt w"
  by (cases c; simp)+

lemma realtimeWriteContract_ignores_decoders:
  "realtimeWriteContract (e\<lparr>marketOrderResultFromLogs := d1\<rparr>) addr c w = realtimeWriteContract e addr c w"
  "realtimeWriteContract (e\<lparr>limitOrderResultFromLogs := d2\<rparr>) addr c w = realtimeWriteContract e addr c w"
  "realtimeWriteContract (e\<lparr>removeOrderResultFromLogs := d3\<rparr>) addr c w = realtimeWriteContract e addr c w"
  by (simp_all add: realtimeWriteContract_def settle_ignores_decoders Let_def cong: sum.case_cong)

lemma marketOrder_send_ignores_decoder:
  "marketOrder_send (e\<lparr>marketOrderResultFromLogs := d\<rparr>) props w = marketOrder_send e props w"
  by (simp add: marketOrder_send_def marketOrder_maxTick_def marketOrder_approval_def
        getApprovals_def giveApprovalTo_def realtimeWriteContract_ignores_decoders Let_def
      cong: sum.case_cong option.case_cong prod.case_cong list.case_cong if_cong)

lemma limitOrder_send_ignores_decoder:
  "limitOrder_send (e\<lparr>limitOrderResultFromLogs := d\<rparr>) props w = limitOrder_send e props w"
  by (simp add: limitOrder_send_def limitOrder_defaults_def getUserRouter_def getBook_def
        limitOrder_approval_def limitOrder_tick_def limitOrder_rawParams_def
        getApprovals_def giveApprovalTo_def realtimeWriteContract_ignores_decoders Let_def
      cong: sum.case_cong option.case_cong prod.case_cong list.case_cong if_cong)

lemma cancelLimitOrder_send_ignores_decoder:
  "cancelLimitOrder_send (e\<lparr>removeOrderResultFromLogs := d\<rparr>) props w = cancelLimitOrder_send e props w"
  by (simp add: cancelLimitOrder_send_def realtimeWriteContract_ignores_decoders)

text \<open>
  Claim C3. Take the receipt \<open>r\<close> of the order transaction of \<open>marketOrder\<close>,
  \<open>limitOrder\<close> or \<open>cancelLimitOrder\<close>. If \<open>r\<close> is reverted the call fails with
  its own error (\<open>Market order failed\<close>, \<open>Limit order failed\<close>,
  \<open>Limit order cancellation failed\<close>) whatever decoder \<open>d\<close> is put in the SDK's
  place: the decoder is not consulted. If \<open>r\<close> is not reverted the outcome is the
  decoder's on the logs of \<open>r\<close>: its result paired with \<open>r\<close>, or its error.
\<close>

theorem reverted_receipt_is_never_decoded:
  "(fst (marketOrder_send e mp w) = Inr r1 \<longrightarrow>
      (if status r1 = reverted
       then marketOrder (e\<lparr>marketOrderResultFromLogs := d1\<rparr>) mp w =
              (Inl (Error ''Market order failed''), snd (marketOrder_send e mp w))
       else fst (marketOrder e mp w) =
              map_sum id (Pair r1)
                (marketOrderResultFromLogs e params (market mp) (logs r1) (bs mp) (account e))))
   \<and> (fst (limitOrder_send e lp w) = Inr r2 \<longrightarrow>
      (if status r2 = reverted
       then limitOrder (e\<lparr>limitOrderResultFromLogs := d2\<rparr>) lp w =
              (Inl (Error ''Limit order failed''), snd (limitOrder_send e lp w))
       else fst (limitOrder e lp w) =
              map_sum id (Pair r2)
                (limitOrderResultFromLogs e params (market lp) (logs r2) (account e) (bs lp))))
   \<and> (fst (cancelLimitOrder_send e cp w) = Inr r3 \<longrightarrow>
      (if status r3 = reverted
       then cancelLimitOrder (e\<lparr>removeOrderResultFromLogs := d3\<rparr>) cp w =
              (Inl (Error ''Limit order cancellation failed''), snd (cancelLimitOrder_send e cp w))
       else fst (cancelLimitOrder e cp w) =
              map_sum id (Pair r3)
                (removeOrderResultFromLogs e params (market cp) (logs r3) (offerId cp) (bs cp))))"
proof (intro conjI impI)
  assume "fst (marketOrder_send e mp w) = Inr r1"
  then show "if status r1 = reverted
       then marketOrder (e\<lparr>marketOrderResultFromLogs := d1\<rparr>) mp w =
              (Inl (Error ''Market order failed''), snd (marketOrder_send e mp w))
       else fst (marketOrder e mp w) =
              map_sum id (Pair r1)
                (marketOrderResultFromLogs e params (market mp) (logs r1) (bs mp) (account e))"
    by (cases "marketOrder_send e mp w")
       (simp add: marketOrder_def marketOrder_send_ignores_decoder split: sum.splits)
next
  assume "fst (limitOrder_send e lp w) = Inr r2"
  then show "if status r2 = reverted
       then limitOrder (e\<lparr>limitOrderResultFromLogs := d2\<rparr>) lp w =
              (Inl (Error ''Limit order failed''), snd (limitOrder_send e lp w))
       else fst (limitOrder e lp w) =
              map_sum id (Pair r2)
                (limitOrderResultFromLogs e params (market lp) (logs r2) (account e) (bs lp))"
    by (cases "limitOrder_send e lp w")
       (simp add: limitOrder_def limitOrder_send_ignores_decoder split: sum.splits)
next
  assume "fst (cancelLimitOrder_send e cp w) = Inr r3"
  then show "if status r3 = reverted
       then cancelLimitOrder (e\<lparr>removeOrderResultFromLogs := d3\<rparr>) cp w =
              (Inl (Error ''Limit order cancellation failed''), snd (cancelLimitOrder_send e cp w))
       else fst (cancelLimitOrder e cp w) =
              map_sum id (Pair r3)
                (removeOrderResultFromLogs e params (market cp) (logs r3) (offerId cp) (bs cp))"
    by (cases "cancelLimitOrder_send e cp w")
       (simp add: cancelLimitOrder_def cancelLimitOrder_send_ignores_decoder split: sum.splits)
qed

text \<open>
  On the test double: with a node that reverts, the three calls fail with their errors;
  with one that accepts, they return the receipt and the decoded result.
\<close>

theorem reverted_receipt_is_never_decoded_witness:
  "fst (marketOrder_send fake_reverting (market_props buy None (Some True)) fresh)
     = Inr (fake_receipt\<lparr>status := reverted\<rparr>)
   \<and> fst (marketOrder (fake_reverting\<lparr>marketOrderResultFromLogs := (\<lambda>ps m ls side taker. Inr no_trade)\<rparr>)
            (market_props buy None (Some True)) fresh) = Inl (Error ''Market order failed'')
   \<and> fst (limitOrder_send fake_reverting (limit_props buy (Finite 100) (Some True) None) fresh)
     = Inr (fake_receipt\<lparr>status := reverted\<rparr>)
   \<and> fst (limitOrder (fake_reverting\<lparr>limitOrderResultFromLogs := (\<lambda>ps m ls user side. Inr no_trade_no_offer)\<rparr>)
            (limit_props buy (Finite 100) (Some True) None) fresh) = Inl (Error ''Limit order failed'')
   \<and> fst (cancelLimitOrder_send fake_reverting (cancel_props 7) fresh)
     = Inr (fake_receipt\<lparr>status := reverted\<rparr>)
   \<and> fst (cancelLimitOrder (fake_reverting\<lparr>removeOrderResultFromLogs := decodeCancelResult\<rparr>)
            (cancel_props 7) fresh) = Inl (Error ''Limit order cancellation failed'')
   \<and> fst (marketOrder_send fake (market_props buy None (Some True)) fresh) = Inr fake_receipt
   \<and> fst (marketOrder fake (market_props buy None (Some True)) fresh) = Inr (fake_receipt, no_trade)
   \<and> fst (limitOrder fake (limit_props buy (Finite 100) (Some True) None) fresh)
     = Inr (fake_receipt, no_trade_no_offer)
   \<and> fst (cancelLimitOrder fake (cancel_props 7) fresh) = Inr (fake_receipt, \<lparr>success = False\<rparr>)"
  using reverted_receipt_is_never_decoded[of fake_reverting "market_props buy None (Some True)" fresh
          "fake_receipt\<lparr>status := reverted\<rparr>" "(\<lambda>ps m ls side taker. Inr no_trade)"
          "limit_props buy (Finite 100) (Some True) None" "fake_receipt\<lparr>status := reverted\<rparr>"
          "(\<lambda>ps m ls user side. Inr no_trade_no_offer)" "cancel_props 7"
          "fake_receipt\<lparr>status := reverted\<rparr>" decodeCancelResult]
        reverted_receipt_is_never_decoded[of fake "market_props buy None (Some True)" fresh
          fake_receipt "(\<lambda>ps m ls side taker. Inr no_trade)"
          "limit_props buy (Finite 100) (Some True) None" fake_receipt
          "(\<lambda>ps m ls user side. Inr no_trade_no_offer)" "cancel_props 7"
          fake_receipt decodeCancelResult]
  by (simp add: fake_defs model_defs decodeCancelResult_def)

text \<open>
  Claim C7, against the cancellation decoder modelled from the spec. When the receipt of
  the removal is not reverted and its logs hold no removal event for the offer id (the
  offer no longer existed), \<open>cancelLimitOrder\<close> returns the receipt with
  \<open>success = False\<close>; it does not fail.
\<close>

theorem cancel_of_missing_offer_is_not_an_error:
  assumes "removeOrderResultFromLogs e = decodeCancelResult"
    and "fst (cancelLimitOrder_send e props w) = Inr r"
    and "status r \<noteq> reverted"
    and "OfferRemoved (offerId props) \<notin> set (logs r)"
  shows "fst (cancelLimitOrder e props w) = Inr (r, \<lparr>success = False\<rparr>)"
  using assms
  by (cases "cancelLimitOrder_send e props w")
     (simp add: cancelLimitOrder_def decodeCancelResult_def)

text \<open>On the test double, whose receipts have no logs, cancelling offer 6195.\<close>

theorem cancel_of_missing_offer_is_not_an_error_witness:
  "removeOrderResultFromLogs fake = decodeCancelResult
   \<and> fst (cancelLimitOrder_send fake (cancel_props 6195) fresh) = Inr fake_receipt
   \<and> status fake_receipt \<noteq> reverted
   \<and> OfferRemoved (offerId (cancel_props 6195)) \<notin> set (logs fake_receipt)
   \<and> fst (cancelLimitOrder fake (cancel_props 6195) fresh) = Inr (fake_receipt, \<lparr>success = False\<rparr>)"
  using cancel_of_missing_offer_is_not_an_error[of fake "cancel_props 6195" fresh fake_receipt]
  by (simp add: fake_defs model_defs)

section \<open>Balances\<close>

text \<open>
  The batched query asks for base and quote of each market in turn, so market \<open>i\<close>
  owns positions \<open>2 * i\<close> and \<open>2 * i + 1\<close>.
\<close>

lemma balance_contracts_Cons:
  "balance_contracts (m # ms) = address (base m) # address (quote m) # balance_contracts ms"
  by (simp add: balance_contracts_def)

lemma length_balance_contracts: "length (balance_contracts ms) = 2 * length ms"
  by (induction ms) (simp_all add: balance_contracts_def)

lemma set_balance_contracts:
  "set (balance_contracts ms) = (\<Union>m\<in>set ms. {address (base m), address (quote m)})"
  by (induction ms) (auto simp add: balance_contracts_def)

lemma balance_contracts_nth:
  "i < length ms \<Longrightarrow>
     balance_contracts ms ! (2 * i) = address (base (ms ! i))
     \<and> balance_contracts ms ! (2 * i + 1) = address (quote (ms ! i))"
proof (induction ms arbitrary: i)
  case Nil
  then show ?case by simp
next
  case (Cons m ms)
  show ?case
  proof (cases i)
    case 0
    then show ?thesis by (simp add: balance_contracts_Cons)
  next
    case (Suc k)
    with Cons.prems have "k < length ms" by simp
    from Cons.IH[OF this] show ?thesis using Suc by (simp add: balance_contracts_Cons)
  qed
qed

lemma drop_balance_contracts:
  "drop (2 * k) (balance_contracts ms) = balance_contracts (drop k ms)"
proof (induction ms arbitrary: k)
  case Nil
  then show ?case by (simp add: balance_contracts_def)
next
  case (Cons m ms)
  show ?case
  proof (cases k)
    case 0
    then show ?thesis by simp
  next
    case (Suc j)
    then show ?thesis using Cons.IH[of j] by (simp add: balance_contracts_Cons)
  qed
qed

text \<open>Reading an association list from its end: the last pair for a key wins.\<close>

lemma nth_in_set_drop:
  assumes "n \<le> j" and "j < length xs"
  shows "xs ! j \<in> set (drop n xs)"
proof -
  have "drop n xs ! (j - n) = xs ! (n + (j - n))"
    using assms by (intro nth_drop) simp
  moreover have "j - n < length (drop n xs)" using assms by simp
  ultimately show ?thesis using assms nth_mem[of "j - n" "drop n xs"] by simp
qed

lemma map_of_rev_last:
  "k < length ps \<Longrightarrow> (\<forall>j. k < j \<and> j < length ps \<longrightarrow> fst (ps ! j) \<noteq> fst (ps ! k))
     \<Longrightarrow> map_of (rev ps) (fst (ps ! k)) = Some (snd (ps ! k))"
proof (induction ps rule: rev_induct)
  case Nil
  then show ?case by simp
next
  case (snoc p ps)
  show ?case
  proof (cases "k = length ps")
    case True
    then show ?thesis by (cases p) simp
  next
    case False
    with snoc.prems have k: "k < length ps" by simp
    have later: "\<forall>j. k < j \<and> j < length ps \<longrightarrow> fst (ps ! j) \<noteq> fst (ps ! k)"
    proof (intro allI impI)
      fix j assume j: "k < j \<and> j < length ps"
      then have "fst ((ps @ [p]) ! j) \<noteq> fst ((ps @ [p]) ! k)"
        using snoc.prems(2)[rule_format, of j] by simp
      then show "fst (ps ! j) \<noteq> fst (ps ! k)" using j k by (simp add: nth_append)
    qed
    have "fst ((ps @ [p]) ! length ps) \<noteq> fst ((ps @ [p]) ! k)"
      using snoc.prems(2)[rule_format, of "length ps"] k by simp
    then have "fst p \<noteq> fst (ps ! k)" using k by (simp add: nth_append)
    then show ?thesis
      using snoc.IH[OF k later] k by (cases p) (auto simp add: nth_append)
  qed
qed

text \<open>
  The loop, started at an even index of a result list with one balance per contract,
  never throws; it writes the remaining pairs in order, so the map it returns is the
  association list of contracts and balances read from its end.
\<close>

lemma getBalances_loop_closed_form:
  "length results = 2 * length markets \<Longrightarrow> even i \<Longrightarrow> i \<le> length results \<Longrightarrow>
     getBalances_loop markets results i B =
       Inr (B ++ map_of (rev (zip (drop i (balance_contracts markets)) (map Some (drop i results)))))"
proof (induction markets results i B rule: getBalances_loop.induct)
  case (1 markets results i balances)
  let ?cs = "balance_contracts markets"
  show ?case
  proof (cases "i < length results")
    case False
    with 1 show ?thesis by (subst getBalances_loop.simps) simp
  next
    case True
    with "1.prems" have i1: "i + 1 < length results" by presburger
    from True "1.prems" have k: "i div 2 < length markets" by simp
    have i2: "2 * (i div 2) = i" using "1.prems"(2) by simp
    have c0: "?cs ! i = address (base (markets ! (i div 2)))"
      and c1: "?cs ! (i + 1) = address (quote (markets ! (i div 2)))"
      using balance_contracts_nth[OF k] i2 by simp_all
    have lc: "length ?cs = length results" using "1.prems"(1) by (simp add: length_balance_contracts)
    have dc: "drop i ?cs = ?cs ! i # ?cs ! (i + 1) # drop (i + 2) ?cs"
      using True i1 lc by (simp add: Cons_nth_drop_Suc)
    have dr: "drop i results = results ! i # results ! (i + 1) # drop (i + 2) results"
      using True i1 by (simp add: Cons_nth_drop_Suc)
    let ?B2 = "balances(address (base (markets ! (i div 2))) \<mapsto> js_index results i,
                        address (quote (markets ! (i div 2))) \<mapsto> js_index results (i + 1))"
    have step: "getBalances_loop markets results i balances = getBalances_loop markets results (i + 2) ?B2"
      using True k "1.prems"(2) by (subst getBalances_loop.simps) (simp add: Let_def)
    have ek: "even i \<and> i div 2 < length markets" using k "1.prems"(2) by simp
    have e2: "even (i + 2)" using "1.prems"(2) by simp
    have l2: "i + 2 \<le> length results" using i1 by simp
    have ih: "getBalances_loop markets results (i + 2) ?B2 =
        Inr (?B2 ++ map_of (rev (zip (drop (i + 2) ?cs) (map Some (drop (i + 2) results)))))"
      by (rule "1.IH"[OF True ek refl refl refl refl refl "1.prems"(1) e2 l2])
    have "?B2 ++ map_of (rev (zip (drop (i + 2) ?cs) (map Some (drop (i + 2) results))))
          = balances ++ map_of (rev (zip (drop i ?cs) (map Some (drop i results))))"
      using True i1 c1 by (simp add: dc dr c0 js_index_def)
    with step ih show ?thesis by simp
  qed
qed

text \<open>
  Claim C10 as stated fails for a market whose base and quote are the same token: the
  base address does not map to the balance at the even position, because the quote's
  write, which comes second, replaces it. On the test double the market USDC/USDC gets
  the answers 100 and 101, and the map holds 101 for the address.
\<close>

theorem getBalances_quote_overwrites_base:
  "multicall_balanceOf fake (balance_contracts [USDC_USDC]) fresh = [100, 101]
   \<and> address (base USDC_USDC) = ''0xUSDC''
   \<and> fst (getBalances fake [USDC_USDC] fresh) = Inr [''0xUSDC'' \<mapsto> Some 101]
   \<and> multicall_balanceOf fake (balance_contracts [USDC_USDC]) fresh ! (2 * 0) = 100"
  by (simp add: getBalances_def getBalances_loop.simps js_index_def balance_contracts_def
        fake_def fresh_def USDC_USDC_def USDC_def upt_rec Let_def)

text \<open>
  Claim C10, amended. When the batched query answers with one balance per contract,
  \<open>getBalances\<close> returns a map whose keys are exactly the base and quote addresses
  of the input markets. Writes go in the order of the positions and the last write to
  an address wins: for each market, the base address maps to the balance at the
  market's even position unless the address is written again later (as the quote of the
  same market, when the two addresses coincide, or by a later market), and the quote
  address maps to the balance at the following odd position unless a later market
  writes it again.
\<close>

theorem getBalances_maps_positions:
  assumes "multicall_fault e (Multicall_balanceOf (balance_contracts markets)) w = None"
    and "length (multicall_balanceOf e (balance_contracts markets) w) = 2 * length markets"
  shows "\<exists>M. fst (getBalances e markets w) = Inr M
          \<and> dom M = (\<Union>m\<in>set markets. {address (base m), address (quote m)})
          \<and> (\<forall>i<length markets.
               (address (base (markets ! i)) \<noteq> address (quote (markets ! i))
                  \<and> address (base (markets ! i)) \<notin> set (balance_contracts (drop (Suc i) markets))
                \<longrightarrow> M (address (base (markets ! i))) =
                      Some (Some (multicall_balanceOf e (balance_contracts markets) w ! (2 * i))))
             \<and> (address (quote (markets ! i)) \<notin> set (balance_contracts (drop (Suc i) markets))
                \<longrightarrow> M (address (quote (markets ! i))) =
                      Some (Some (multicall_balanceOf e (balance_contracts markets) w ! (2 * i + 1)))))"
proof -
  let ?cs = "balance_contracts markets"
  let ?rs = "multicall_balanceOf e ?cs w"
  let ?ps = "zip ?cs (map Some ?rs)"
  let ?M = "map_of (rev ?ps)"
  have len: "length ?cs = length ?rs" using assms(2) by (simp add: length_balance_contracts)
  have run: "fst (getBalances e markets w) = Inr ?M"
    using assms getBalances_loop_closed_form[of ?rs markets 0 Map.empty]
    by (simp add: getBalances_def Let_def)
  have "dom ?M = set (map fst ?ps)"
    by (simp add: dom_map_of_conv_image_fst)
  also have "\<dots> = set ?cs" using len by simp
  finally have dom: "dom ?M = (\<Union>m\<in>set markets. {address (base m), address (quote m)})"
    by (simp add: set_balance_contracts)
  have at: "?M (?cs ! k) = Some (Some (?rs ! k))"
    if k: "k < length ?cs" and last: "\<forall>j. k < j \<and> j < length ?cs \<longrightarrow> ?cs ! j \<noteq> ?cs ! k" for k
  proof -
    have "map_of (rev ?ps) (fst (?ps ! k)) = Some (snd (?ps ! k))"
      using k last len by (intro map_of_rev_last) simp_all
    then show ?thesis using k len by simp
  qed
  have later: "?cs ! j \<in> set (balance_contracts (drop (Suc i) markets))"
    if "2 * i + 2 \<le> j" and "j < length ?cs" for i j
  proof -
    have "drop (2 * Suc i) ?cs = balance_contracts (drop (Suc i) markets)"
      by (rule drop_balance_contracts)
    moreover have "?cs ! j \<in> set (drop (2 * Suc i) ?cs)"
      using that by (intro nth_in_set_drop) simp_all
    ultimately show ?thesis by simp
  qed
  have pos: "(address (base (markets ! i)) \<noteq> address (quote (markets ! i))
                  \<and> address (base (markets ! i)) \<notin> set (balance_contracts (drop (Suc i) markets))
                \<longrightarrow> ?M (address (base (markets ! i))) = Some (Some (?rs ! (2 * i))))
             \<and> (address (quote (markets ! i)) \<notin> set (balance_contracts (drop (Suc i) markets))
                \<longrightarrow> ?M (address (quote (markets ! i))) = Some (Some (?rs ! (2 * i + 1))))"
    if i: "i < length markets" for i
  proof (intro conjI impI)
    note nth = balance_contracts_nth[OF i]
    assume b: "address (base (markets ! i)) \<noteq> address (quote (markets ! i))
                  \<and> address (base (markets ! i)) \<notin> set (balance_contracts (drop (Suc i) markets))"
    have "\<forall>j. 2 * i < j \<and> j < length ?cs \<longrightarrow> ?cs ! j \<noteq> ?cs ! (2 * i)"
    proof (intro allI impI)
      fix j assume j: "2 * i < j \<and> j < length ?cs"
      show "?cs ! j \<noteq> ?cs ! (2 * i)"
      proof (cases "j = 2 * i + 1")
        case True
        then show ?thesis using nth b by auto
      next
        case False
        with j have "2 * i + 2 \<le> j" by simp
        from later[OF this] j b nth show ?thesis by auto
      qed
    qed
    moreover have "2 * i < length ?cs" using i by (simp add: length_balance_contracts)
    ultimately have "?M (?cs ! (2 * i)) = Some (Some (?rs ! (2 * i)))" by (intro at) simp_all
    then show "?M (address (base (markets ! i))) = Some (Some (?rs ! (2 * i)))"
      using nth by simp
  next
    note nth = balance_contracts_nth[OF i]
    assume q: "address (quote (markets ! i)) \<notin> set (balance_contracts (drop (Suc i) markets))"
    have "\<forall>j. 2 * i + 1 < j \<and> j < length ?cs \<longrightarrow> ?cs ! j \<noteq> ?cs ! (2 * i + 1)"
    proof (intro allI impI)
      fix j assume j: "2 * i + 1 < j \<and> j < length ?cs"
      then have "2 * i + 2 \<le> j" by simp
      from later[OF this] j q nth show "?cs ! j \<noteq> ?cs ! (2 * i + 1)" by auto
    qed
    moreover have "2 * i + 1 < length ?cs" using i by (simp add: length_balance_contracts)
    ultimately have "?M (?cs ! (2 * i + 1)) = Some (Some (?rs ! (2 * i + 1)))" by (intro at) simp_all
    then show "?M (address (quote (markets ! i))) = Some (Some (?rs ! (2 * i + 1)))"
      using nth by simp
  qed
  from run dom pos show ?thesis by blast
qed

text \<open>
  On the test double, for the markets MEGA/USDC and WETH/USDC with balances 100 to 103
  by position: USDC, the quote of both, holds 103, the value of the last market.
\<close>

theorem getBalances_maps_positions_witness:
  "multicall_fault fake (Multicall_balanceOf (balance_contracts [MEGA_USDC, WETH_USDC])) fresh = None
   \<and> length (multicall_balanceOf fake (balance_contracts [MEGA_USDC, WETH_USDC]) fresh)
       = 2 * length [MEGA_USDC, WETH_USDC]
   \<and> multicall_balanceOf fake (balance_contracts [MEGA_USDC, WETH_USDC]) fresh = [100, 101, 102, 103]
   \<and> (\<exists>M. fst (getBalances fake [MEGA_USDC, WETH_USDC] fresh) = Inr M
          \<and> dom M = {''0xMEGA'', ''0xUSDC'', ''0xWETH''}
          \<and> M ''0xMEGA'' = Some (Some 100)
          \<and> M ''0xWETH'' = Some (Some 102)
          \<and> M ''0xUSDC'' = Some (Some 103))"
proof -
  let ?ms = "[MEGA_USDC, WETH_USDC]"
  have rs: "multicall_balanceOf fake (balance_contracts ?ms) fresh = [100, 101, 102, 103]"
    by (simp add: fake_def balance_contracts_def upt_rec)
  have rs': "multicall_balanceOf fake [''0xMEGA'', ''0xUSDC'', ''0xWETH'', ''0xUSDC''] fresh
              = [100, 101, 102, 103]"
    by (simp add: fake_def upt_rec)
  have f: "multicall_fault fake (Multicall_balanceOf (balance_contracts ?ms)) fresh = None"
    by (simp add: fake_def)
  have l: "length (multicall_balanceOf fake (balance_contracts ?ms) fresh) = 2 * length ?ms"
    by (simp add: rs)
  from getBalances_maps_positions[OF f l] obtain M where
    run: "fst (getBalances fake ?ms fresh) = Inr M"
    and dom: "dom M = (\<Union>m\<in>set ?ms. {address (base m), address (quote m)})"
    and pos: "\<forall>i<length ?ms.
               (address (base (?ms ! i)) \<noteq> address (quote (?ms ! i))
                  \<and> address (base (?ms ! i)) \<notin> set (balance_contracts (drop (Suc i) ?ms))
                \<longrightarrow> M (address (base (?ms ! i))) =
                      Some (Some (multicall_balanceOf fake (balance_contracts ?ms) fresh ! (2 * i))))
             \<and> (address (quote (?ms ! i)) \<notin> set (balance_contracts (drop (Suc i) ?ms))
                \<longrightarrow> M (address (quote (?ms ! i))) =
                      Some (Some (multicall_balanceOf fake (balance_contracts ?ms) fresh ! (2 * i + 1))))"
    by blast
  have d: "dom M = {''0xMEGA'', ''0xUSDC'', ''0xWETH''}"
    using dom by (auto simp add: MEGA_USDC_def WETH_USDC_def MEGA_def USDC_def WETH_def)
  have mega: "M ''0xMEGA'' = Some (Some 100)"
    using pos[rule_format, of 0]
    by (simp add: rs' balance_contracts_def MEGA_USDC_def WETH_USDC_def MEGA_def USDC_def WETH_def)
  have weth: "M ''0xWETH'' = Some (Some 102)"
    using pos[rule_format, of 1]
    by (simp add: rs' balance_contracts_def MEGA_USDC_def WETH_USDC_def MEGA_def USDC_def WETH_def)
  have usdc: "M ''0xUSDC'' = Some (Some 103)"
    using pos[rule_format, of 1]
    by (simp add: rs' balance_contracts_def MEGA_USDC_def WETH_USDC_def MEGA_def USDC_def WETH_def)
  from rs f l run d mega weth usdc show ?thesis by blast
qed

end
